theory Spec2Isabelle
  imports Main "HOL-Library.Word" "HOL-Library.Sublist"
begin

section \<open>Values exchanged with the vault api\<close>

text \<open>
  The vault api decodes a JSON response into Go values of type \<open>interface{}\<close>: the nil
  interface, a \<open>string\<close>, a \<open>json.Number\<close> (the literal's text), a \<open>bool\<close>, a slice
  or a nested map.
\<close>

datatype jvalue =
    JNil
  | JString string
  | JNumber string
  | JBool bool
  | JArray "jvalue list"
  | JObject "(string \<times> jvalue) list"

text \<open>
  A Go \<open>map[string]interface{}\<close>: \<open>None\<close> is the nil map. Indexing never panics: an
  absent key (and every key of the nil map) yields the nil interface, exactly as a key that
  is present with a nil value does.
\<close>

type_synonym gomap = "(string \<rightharpoonup> jvalue) option"

fun index :: "gomap \<Rightarrow> string \<Rightarrow> jvalue" where
  "index None k = JNil"
| "index (Some m) k = (case m k of None \<Rightarrow> JNil | Some v \<Rightarrow> v)"

text \<open>The fields of \<open>api.Secret\<close> that \<open>vault.go\<close> reads.\<close>

record secret =
  Data :: gomap
  Warnings :: "string list"

type_synonym int64 = "64 word"

section \<open>Errors, panics and observable events\<close>

datatype errtype =
    UnknownErrorType
  | BackendSecretNotFoundErrorType
  | VaultTokenNotRenewableErrorType

datatype numerr = ErrSyntax | ErrRange

text \<open>
  A Go \<open>error\<close> value: an error of the vault api (opaque, carried by its message), a
  \<open>strconv.NumError\<close>, or one of the two error structs that \<open>vault.go\<close> builds, with the
  fields it sets.
\<close>

datatype error =
    ApiError string
  | NumError string numerr
  | BackendSecretNotFoundError errtype string string
  | VaultTokenNotRenewableError errtype

datatype panic = NilPointerDereference | InterfaceConversion

datatype 'a outcome = Returns 'a | Panics panic

datatype expired = vaultTokenExpired | vaultTokenNotExpired

text \<open>
  What the client does to the outside world, in order: the calls it issues to the store,
  the lines it logs (by format string) and the metrics it updates.
\<close>

datatype event =
    LookupSelfCall
  | RenewSelfCall int64
  | ReadCall string
  | Errorf string
  | Warnf string
  | Warningln string
  | Infoln string
  | TokenLookupErrorsCountMetric errtype
  | TokenTTLMetric int64
  | TokenExpiredMetric expired
  | TokenRenewErrorsCountMetric errtype
  | SecretReadErrorsCountMetric string string errtype

record 's world =
  store :: 's
  trace :: "event list"

definition emit :: "event \<Rightarrow> 's world \<Rightarrow> 's world" where
  "emit e w = w\<lparr>trace := trace w @ [e]\<rparr>"

text \<open>A call to the store: the event is recorded and the store moves to its next state.\<close>

definition call :: "event \<Rightarrow> ('s \<Rightarrow> 'a \<times> 's) \<Rightarrow> 's world \<Rightarrow> 'a \<times> 's world" where
  "call e f w = (case f (store w) of (r, s') \<Rightarrow> (r, w\<lparr>store := s', trace := trace w @ [e]\<rparr>))"

section \<open>The client\<close>

text \<open>
  The vault api as the client uses it, over a store with states of type \<open>'s\<close>:
  \<open>Auth().Token().LookupSelf()\<close>, \<open>Auth().Token().RenewSelf(increment)\<close> and the
  method \<open>TokenIsRenewable\<close> of \<open>api.Secret\<close>. An error of the api is given by its message.
\<close>

record 's vault =
  LookupSelf :: "'s \<Rightarrow> (secret option \<times> string option) \<times> 's"
  RenewSelf :: "int64 \<Rightarrow> 's \<Rightarrow> (secret option \<times> string option) \<times> 's"
  TokenIsRenewable :: "secret option \<Rightarrow> bool \<times> string option"

text \<open>
  The struct \<open>client\<close>. The field \<open>logical\<close> is \<open>logical.Read\<close>; the field \<open>engine\<close> is
  the engine's method \<open>getData\<close>, which is a parameter here. The polling period (a
  \<open>time.Duration\<close>) and the increment (an \<open>int\<close>) are 64-bit integers.
\<close>

record 's client =
  vclient :: "'s vault"
  logical :: "string \<Rightarrow> 's \<Rightarrow> (secret option \<times> string option) \<times> 's"
  maxTokenTTL :: int64
  tokenPollingPeriod :: int64
  renewTTLIncrement :: int64
  engine :: "secret \<Rightarrow> gomap"

definition defaultSecretKey :: string where
  "defaultSecretKey = ''data''"

subsection \<open>\<open>strconv.ParseInt(s, 10, 64)\<close>, behind \<open>json.Number.Int64\<close>\<close>

text \<open>The value of a decimal digit, \<open>c - '0'\<close> for a byte between \<open>'0'\<close> and \<open>'9'\<close>.\<close>

definition digit :: "char \<Rightarrow> nat option" where
  "digit c = (let d = of_char c :: nat in if 48 \<le> d \<and> d \<le> 57 then Some (d - 48) else None)"

fun ParseUint :: "string \<Rightarrow> nat \<Rightarrow> numerr + nat" where
  "ParseUint [] n = Inr n"
| "ParseUint (c # cs) n =
     (case digit c of
        None \<Rightarrow> Inl ErrSyntax
      | Some d \<Rightarrow> if 2 ^ 64 \<le> n * 10 + d then Inl ErrRange else ParseUint cs (n * 10 + d))"

definition ParseInt :: "string \<Rightarrow> int64 \<times> error option" where
  "ParseInt s =
     (if s = [] then (0, Some (NumError s ErrSyntax))
      else
        let neg = (hd s = CHR ''-'');
            s1 = (if hd s = CHR ''+'' \<or> hd s = CHR ''-'' then tl s else s)
        in if s1 = [] then (0, Some (NumError s ErrSyntax))
           else
             (case ParseUint s1 0 of
                Inl ErrSyntax \<Rightarrow> (0, Some (NumError s ErrSyntax))
              | r \<Rightarrow>
                  let un = (case r of Inr n \<Rightarrow> n | Inl _ \<Rightarrow> 2 ^ 64 - 1)
                  in if \<not> neg \<and> 2 ^ 63 \<le> un then (word_of_nat (2 ^ 63 - 1), Some (NumError s ErrRange))
                     else if neg \<and> 2 ^ 63 < un then (- word_of_nat (2 ^ 63), Some (NumError s ErrRange))
                     else (if neg then - word_of_nat un else word_of_nat un, None)))"

subsection \<open>The token operations\<close>

definition getToken :: "'s client \<Rightarrow> 's world \<Rightarrow> (secret option \<times> error option) \<times> 's world" where
  "getToken c w =
     (case call LookupSelfCall (LookupSelf (vclient c)) w of
        ((lookup, Some err), w1) \<Rightarrow>
          ((None, Some (ApiError err)),
           emit (TokenLookupErrorsCountMetric UnknownErrorType)
             (emit (Errorf ''error checking token with lookup self api: %v'') w1))
      | ((lookup, None), w1) \<Rightarrow> ((lookup, None), w1))"

text \<open>
  \<open>token.Data["ttl"].(json.Number).Int64()\<close>: reading \<open>Data\<close> through a nil token and
  asserting the type of a value that is not a \<open>json.Number\<close> both panic.
\<close>

definition getTokenTTL ::
  "'s client \<Rightarrow> secret option \<Rightarrow> 's world \<Rightarrow> (int64 \<times> error option) outcome \<times> 's world" where
  "getTokenTTL c token w =
     (case token of
        None \<Rightarrow> (Panics NilPointerDereference, w)
      | Some t \<Rightarrow>
          (case index (Data t) ''ttl'' of
             JNumber n \<Rightarrow>
               (case ParseInt n of
                  (ttl, Some err) \<Rightarrow>
                    (Returns (- 1, Some err), emit (Errorf ''couldn't decode ttl from token: %v'') w)
                | (ttl, None) \<Rightarrow> (Returns (ttl, None), emit (TokenTTLMetric ttl) w))
           | _ \<Rightarrow> (Panics InterfaceConversion, w)))"

definition shouldRenewToken :: "'s client \<Rightarrow> int64 \<Rightarrow> 's world \<Rightarrow> bool \<times> 's world" where
  "shouldRenewToken c ttl w =
     (if ttl <s maxTokenTTL c then (True, emit (TokenExpiredMetric vaultTokenExpired) w)
      else (False, emit (TokenExpiredMetric vaultTokenNotExpired) w))"

text \<open>
  \<open>renewToken\<close> asks the token whether it is renewable before it calls \<open>RenewSelf\<close>.
  (The line about the failed call goes to the package-level logger of logrus; it is an
  \<open>Errorf\<close> event like the others.)
\<close>

definition renewToken :: "'s client \<Rightarrow> secret option \<Rightarrow> 's world \<Rightarrow> error option \<times> 's world" where
  "renewToken c token w =
     (case TokenIsRenewable (vclient c) token of
        (isRenewable, Some err) \<Rightarrow>
          (Some (ApiError err),
           emit (TokenRenewErrorsCountMetric UnknownErrorType)
             (emit (Errorf ''could not check token renewability: %v'') w))
      | (isRenewable, None) \<Rightarrow>
          if \<not> isRenewable then
            (Some (VaultTokenNotRenewableError VaultTokenNotRenewableErrorType),
             emit (TokenRenewErrorsCountMetric VaultTokenNotRenewableErrorType) w)
          else
            (case call (RenewSelfCall (renewTTLIncrement c))
                    (RenewSelf (vclient c) (renewTTLIncrement c)) w of
               ((r, Some err), w1) \<Rightarrow>
                 (Some (ApiError err),
                  emit (TokenRenewErrorsCountMetric UnknownErrorType)
                    (emit (Errorf ''failed to renew token: %v'') w1))
             | ((r, None), w1) \<Rightarrow> (None, w1)))"

subsection \<open>The renewal loop\<close>

text \<open>
  The goroutine of \<open>startTokenRenewer\<close>. Each iteration of its \<open>for\<close> blocks in a
  \<open>select\<close> until the timer or the context wakes it; the list gives which of the two fires
  at each iteration. When the list is used up the goroutine is still alive, blocked in the
  \<open>select\<close>.
\<close>

datatype wake = TimerFired | CtxDone

datatype goroutine = Returned | Crashed panic | Blocked

fun startTokenRenewer :: "'s client \<Rightarrow> wake list \<Rightarrow> 's world \<Rightarrow> goroutine \<times> 's world" where
  "startTokenRenewer c [] w = (Blocked, w)"
| "startTokenRenewer c (CtxDone # ws) w =
     (Returned, emit (Infoln ''gracefully shutting down token renewal go routine'') w)"
| "startTokenRenewer c (TimerFired # ws) w =
     (case getToken c w of
        ((token, Some err), w1) \<Rightarrow> (Returned, emit (Errorf ''failed to fetch token: %v'') w1)
      | ((token, None), w1) \<Rightarrow>
          (case getTokenTTL c token w1 of
             (Panics p, w2) \<Rightarrow> (Crashed p, w2)
           | (Returns (ttl, Some err), w2) \<Rightarrow>
               (Returned, emit (Errorf ''failed to read token TTL: %v'') w2)
           | (Returns (ttl, None), w2) \<Rightarrow>
               (case shouldRenewToken c ttl w2 of
                  (True, w3) \<Rightarrow>
                    (case renewToken c token
                            (emit (Warnf ''token is really close to expire, current ttl: %d'') w3) of
                       (Some err, w4) \<Rightarrow>
                         startTokenRenewer c ws (emit (Errorf ''could not renew token: %v'') w4)
                     | (None, w4) \<Rightarrow>
                         startTokenRenewer c ws (emit (Infoln ''token renewed successfully!'') w4))
                | (False, w3) \<Rightarrow> (Returned, w3))))"

subsection \<open>Reading a secret\<close>

definition ReadSecret ::
  "'s client \<Rightarrow> string \<Rightarrow> string \<Rightarrow> 's world \<Rightarrow> (string \<times> error option) outcome \<times> 's world" where
  "ReadSecret c path key0 w =
     (let data = '''';
          key = (if key0 = '''' then defaultSecretKey else key0)
      in case call (ReadCall path) (logical c path) w of
           ((secret, Some err), w1) \<Rightarrow>
             (Returns (data, Some (ApiError err)),
              emit (SecretReadErrorsCountMetric path key UnknownErrorType) w1)
         | ((Some s, None), w1) \<Rightarrow>
             (case engine c s of
                Some secretData \<Rightarrow>
                  (case index (Some secretData) key of
                     JNil \<Rightarrow>
                       (Returns (data, Some (BackendSecretNotFoundError BackendSecretNotFoundErrorType path key)),
                        emit (SecretReadErrorsCountMetric path key BackendSecretNotFoundErrorType) w1)
                   | JString v \<Rightarrow> (Returns (v, None), w1)
                   | _ \<Rightarrow> (Panics InterfaceConversion, w1))
              | None \<Rightarrow>
                  (Returns (data, Some (BackendSecretNotFoundError BackendSecretNotFoundErrorType path key)),
                   emit (SecretReadErrorsCountMetric path key BackendSecretNotFoundErrorType)
                     (fold (\<lambda>wn. emit (Warningln wn)) (Warnings s) w1)))
         | ((None, None), w1) \<Rightarrow>
             (Returns (data, Some (BackendSecretNotFoundError BackendSecretNotFoundErrorType path key)),
              emit (SecretReadErrorsCountMetric path key BackendSecretNotFoundErrorType) w1))"

subsection \<open>Example stores and clients\<close>

text \<open>
  Stores whose state counts the calls they have served. \<open>exampleVault token renewable\<close>
  answers every lookup with \<open>token\<close>, says whether a token is renewable, and refuses every
  renewal; \<open>downVault\<close> fails every call.
\<close>

definition w0 :: "nat world" where
  "w0 = \<lparr>store = 0, trace = []\<rparr>"

definition kvSecret :: "(string \<rightharpoonup> jvalue) \<Rightarrow> secret" where
  "kvSecret payload = \<lparr>Data = Some payload, Warnings = []\<rparr>"

definition exampleVault :: "secret \<Rightarrow> bool \<Rightarrow> nat vault" where
  "exampleVault token renewable =
     \<lparr>LookupSelf = (\<lambda>s. ((Some token, None), Suc s)),
      RenewSelf = (\<lambda>inc s. ((None, Some ''permission denied''), Suc s)),
      TokenIsRenewable = (\<lambda>t. (renewable, None))\<rparr>"

definition downVault :: "nat vault" where
  "downVault =
     \<lparr>LookupSelf = (\<lambda>s. ((None, Some ''connection refused''), Suc s)),
      RenewSelf = (\<lambda>inc s. ((None, Some ''connection refused''), Suc s)),
      TokenIsRenewable = (\<lambda>t. (False, None))\<rparr>"

text \<open>
  A client with threshold 600, increment 3600 and the engine that takes the payload from
  \<open>Data\<close>, over a store that answers every read with \<open>resp\<close>.
\<close>

definition exampleClient :: "nat vault \<Rightarrow> secret option \<times> string option \<Rightarrow> nat client" where
  "exampleClient v resp =
     \<lparr>vclient = v,
      logical = (\<lambda>path s. (resp, Suc s)),
      maxTokenTTL = 600,
      tokenPollingPeriod = 15000000000,
      renewTTLIncrement = 3600,
      engine = Data\<rparr>"

definition healthyToken :: secret where
  "healthyToken = kvSecret [''ttl'' \<mapsto> JNumber ''3600'']"

definition lowToken :: secret where
  "lowToken = kvSecret [''ttl'' \<mapsto> JNumber ''5'']"

definition noTTLToken :: secret where
  "noTTLToken = kvSecret [''renewable'' \<mapsto> JBool True]"

definition healthyClient :: "nat client" where
  "healthyClient = exampleClient (exampleVault healthyToken True) (None, None)"

definition failingClient :: "nat client" where
  "failingClient = exampleClient (exampleVault lowToken True) (None, None)"

definition notRenewableClient :: "nat client" where
  "notRenewableClient = exampleClient (exampleVault lowToken False) (None, None)"

definition noTTLClient :: "nat client" where
  "noTTLClient = exampleClient (exampleVault noTTLToken True) (None, None)"

definition passwordClient :: "jvalue \<Rightarrow> nat client" where
  "passwordClient v = exampleClient downVault (Some (kvSecret [''password'' \<mapsto> v]), None)"

lemmas example_defs = w0_def kvSecret_def exampleVault_def downVault_def exampleClient_def
  healthyToken_def lowToken_def noTTLToken_def healthyClient_def failingClient_def
  notRenewableClient_def noTTLClient_def passwordClient_def

lemmas token_defs = getToken_def getTokenTTL_def shouldRenewToken_def renewToken_def
  call_def emit_def ParseInt_def digit_def

section \<open>The trace only grows\<close>

lemma prefix_emit: "prefix xs (trace w) \<Longrightarrow> prefix xs (trace (emit e w))"
  by (simp add: emit_def prefix_def) auto

lemma getToken_trace:
  assumes "getToken c w = (r, w1)"
  shows "prefix (trace w @ [LookupSelfCall]) (trace w1)"
  using assms
  by (auto simp: getToken_def call_def emit_def prefix_def split: prod.splits option.splits)

lemma getTokenTTL_trace:
  assumes "getTokenTTL c token w = (r, w1)"
  shows "prefix (trace w) (trace w1)"
  using assms
  by (auto simp: getTokenTTL_def emit_def split: prod.splits option.splits jvalue.splits)

lemma shouldRenewToken_trace:
  assumes "shouldRenewToken c ttl w = (r, w1)"
  shows "prefix (trace w) (trace w1)"
  using assms by (auto simp: shouldRenewToken_def emit_def split: if_splits)

lemma renewToken_trace:
  assumes "renewToken c token w = (r, w1)"
  shows "prefix (trace w) (trace w1)"
  using assms
  by (auto simp: renewToken_def call_def emit_def prefix_def split: prod.splits option.splits if_splits)

text \<open>
  One iteration woken by the timer starts with the lookup call, whatever follows, provided
  the remaining iterations only extend the trace.
\<close>

lemma tick_trace:
  assumes IH: "\<And>w'. prefix (trace w') (trace (snd (startTokenRenewer c ws w')))"
  shows "prefix (trace w @ [LookupSelfCall]) (trace (snd (startTokenRenewer c (TimerFired # ws) w)))"
proof -
  let ?pre = "trace w @ [LookupSelfCall]"
  obtain token e1 w1 where g1: "getToken c w = ((token, e1), w1)"
    by (cases "getToken c w") auto
  have p1: "prefix ?pre (trace w1)"
    by (rule getToken_trace [OF g1])
  show ?thesis
  proof (cases e1)
    case (Some err)
    then show ?thesis using g1 prefix_emit [OF p1] by simp
  next
    case n1: None
    obtain r2 w2 where g2: "getTokenTTL c token w1 = (r2, w2)"
      by (cases "getTokenTTL c token w1") auto
    have p2: "prefix ?pre (trace w2)"
      using p1 getTokenTTL_trace [OF g2] by (rule prefix_order.trans)
    show ?thesis
    proof (cases r2)
      case (Panics p)
      then show ?thesis using g1 g2 n1 p2 by simp
    next
      case (Returns v)
      obtain ttl e2 where v: "v = (ttl, e2)" by (cases v)
      show ?thesis
      proof (cases e2)
        case (Some err)
        then show ?thesis using g1 g2 n1 Returns v prefix_emit [OF p2] by simp
      next
        case n2: None
        obtain b w3 where g3: "shouldRenewToken c ttl w2 = (b, w3)"
          by (cases "shouldRenewToken c ttl w2") auto
        have p3: "prefix ?pre (trace w3)"
          using p2 shouldRenewToken_trace [OF g3] by (rule prefix_order.trans)
        show ?thesis
        proof (cases b)
          case False
          then show ?thesis using g1 g2 g3 n1 n2 Returns v p3 by simp
        next
          case True
          let ?w3 = "emit (Warnf ''token is really close to expire, current ttl: %d'') w3"
          obtain r4 w4 where g4: "renewToken c token ?w3 = (r4, w4)"
            by (cases "renewToken c token ?w3") auto
          have p4: "prefix ?pre (trace w4)"
            using prefix_emit [OF p3] renewToken_trace [OF g4] by (rule prefix_order.trans)
          have p5: "prefix ?pre (trace (snd (startTokenRenewer c ws (emit e' w4))))" for e'
            using prefix_emit [OF p4] IH by (rule prefix_order.trans)
          show ?thesis
            using g1 g2 g3 g4 n1 n2 Returns v True p5 by (cases r4) simp_all
        qed
      qed
    qed
  qed
qed

lemma startTokenRenewer_trace:
  "prefix (trace w) (trace (snd (startTokenRenewer c ws w)))"
proof (induction ws arbitrary: w)
  case Nil
  show ?case by simp
next
  case (Cons a ws)
  show ?case
  proof (cases a)
    case CtxDone
    then show ?thesis by (simp add: prefix_emit)
  next
    case TimerFired
    have "prefix (trace w) (trace w @ [LookupSelfCall])" by simp
    then show ?thesis
      using tick_trace [of c ws w, OF Cons.IH] TimerFired by (meson prefix_order.trans)
  qed
qed

lemma startTokenRenewer_tick_trace:
  "prefix (trace w @ [LookupSelfCall]) (trace (snd (startTokenRenewer c (TimerFired # ws) w)))"
  by (rule tick_trace) (rule startTokenRenewer_trace)

section \<open>The token renewer\<close>

text \<open>
  C5. \<open>shouldRenewToken\<close> answers true exactly when the TTL, read as a signed 64-bit
  integer, is below the configured threshold \<open>maxTokenTTL\<close>.
\<close>

theorem shouldRenewToken_iff_below_threshold:
  "fst (shouldRenewToken c t w) \<longleftrightarrow> sint t < sint (maxTokenTTL c)"
  by (simp add: shouldRenewToken_def word_sless_alt)

text \<open>With threshold 600: a TTL of 5 is renewed, TTLs of 600 and 3600 are not.\<close>

theorem shouldRenewToken_iff_below_threshold_witness:
  "fst (shouldRenewToken healthyClient 5 w0)
   \<and> \<not> fst (shouldRenewToken healthyClient 600 w0)
   \<and> \<not> fst (shouldRenewToken healthyClient 3600 w0)"
  using shouldRenewToken_iff_below_threshold [of healthyClient 5 w0]
    shouldRenewToken_iff_below_threshold [of healthyClient 600 w0]
    shouldRenewToken_iff_below_threshold [of healthyClient 3600 w0]
  by (simp add: example_defs)

text \<open>
  C6. When \<open>TokenIsRenewable\<close> reports false without error, \<open>renewToken\<close> returns the
  \<open>VaultTokenNotRenewableError\<close>; the store is left in the state it was in and the only
  event is the metric: \<open>RenewSelf\<close> is not called.
\<close>

theorem renewToken_not_renewable:
  assumes "TokenIsRenewable (vclient c) token = (False, None)"
  shows "renewToken c token w =
           (Some (VaultTokenNotRenewableError VaultTokenNotRenewableErrorType),
            w\<lparr>trace := trace w @ [TokenRenewErrorsCountMetric VaultTokenNotRenewableErrorType]\<rparr>)"
  using assms by (simp add: renewToken_def emit_def)

theorem renewToken_not_renewable_witness:
  "TokenIsRenewable (vclient notRenewableClient) (Some lowToken) = (False, None)
   \<and> renewToken notRenewableClient (Some lowToken) w0 =
       (Some (VaultTokenNotRenewableError VaultTokenNotRenewableErrorType),
        \<lparr>store = 0, trace = [TokenRenewErrorsCountMetric VaultTokenNotRenewableErrorType]\<rparr>)"
proof -
  have h: "TokenIsRenewable (vclient notRenewableClient) (Some lowToken) = (False, None)"
    by (simp add: example_defs)
  show ?thesis
    using h renewToken_not_renewable [OF h, of w0] by (simp add: w0_def)
qed

text \<open>
  C9. When the lookup call of a tick fails, the goroutine returns: the events of that tick
  are the lookup call, the two log lines and the metric, the remaining wake-ups are never
  served, and so no TTL is decoded, no renewability is checked and nothing is renewed.
\<close>

theorem lookup_failure_stops_loop:
  assumes "LookupSelf (vclient c) (store w) = ((r, Some e), s1)"
  shows "startTokenRenewer c (TimerFired # ws) w =
           (Returned,
            w\<lparr>store := s1,
              trace := trace w @
                [LookupSelfCall,
                 Errorf ''error checking token with lookup self api: %v'',
                 TokenLookupErrorsCountMetric UnknownErrorType,
                 Errorf ''failed to fetch token: %v'']\<rparr>)"
  using assms by (simp add: getToken_def call_def emit_def)

theorem lookup_failure_stops_loop_witness:
  "LookupSelf (vclient (exampleClient downVault (None, None))) (store w0) =
     ((None, Some ''connection refused''), 1)
   \<and> startTokenRenewer (exampleClient downVault (None, None)) [TimerFired, TimerFired, CtxDone] w0 =
       (Returned,
        \<lparr>store = 1,
         trace = [LookupSelfCall,
                  Errorf ''error checking token with lookup self api: %v'',
                  TokenLookupErrorsCountMetric UnknownErrorType,
                  Errorf ''failed to fetch token: %v'']\<rparr>)"
proof -
  have h: "LookupSelf (vclient (exampleClient downVault (None, None))) (store w0) =
             ((None, Some ''connection refused''), 1)"
    by (simp add: example_defs)
  show ?thesis
    using h lookup_failure_stops_loop [OF h, of "[TimerFired, CtxDone]"] by (simp add: w0_def)
qed

text \<open>
  C2. On a tick whose lookup succeeds with a TTL that is not below the threshold, the
  goroutine returns at once: the events of that tick are the lookup call and the two
  metrics, and the remaining wake-ups are never served.
\<close>

theorem healthy_token_stops_loop:
  assumes "LookupSelf (vclient c) (store w) = ((Some t, None), s1)"
    and "index (Data t) ''ttl'' = JNumber n"
    and "ParseInt n = (ttl, None)"
    and "\<not> ttl <s maxTokenTTL c"
  shows "startTokenRenewer c (TimerFired # ws) w =
           (Returned,
            w\<lparr>store := s1,
              trace := trace w @
                [LookupSelfCall, TokenTTLMetric ttl, TokenExpiredMetric vaultTokenNotExpired]\<rparr>)"
  using assms by (simp add: getToken_def getTokenTTL_def shouldRenewToken_def call_def emit_def)

theorem healthy_token_stops_loop_witness:
  "LookupSelf (vclient healthyClient) (store w0) = ((Some healthyToken, None), 1)
   \<and> index (Data healthyToken) ''ttl'' = JNumber ''3600''
   \<and> ParseInt ''3600'' = (3600, None)
   \<and> \<not> (3600 :: int64) <s maxTokenTTL healthyClient
   \<and> startTokenRenewer healthyClient [TimerFired, TimerFired, CtxDone] w0 =
        (Returned,
         \<lparr>store = 1,
          trace = [LookupSelfCall, TokenTTLMetric 3600, TokenExpiredMetric vaultTokenNotExpired]\<rparr>)"
proof -
  have h1: "LookupSelf (vclient healthyClient) (store w0) = ((Some healthyToken, None), 1)"
    by (simp add: example_defs)
  have h2: "index (Data healthyToken) ''ttl'' = JNumber ''3600''"
    by (simp add: example_defs)
  have h3: "ParseInt ''3600'' = (3600, None)"
    by (simp add: ParseInt_def digit_def)
  have h4: "\<not> (3600 :: int64) <s maxTokenTTL healthyClient"
    by (simp add: example_defs word_sless_alt)
  show ?thesis
    using h1 h2 h3 h4 healthy_token_stops_loop [OF h1 h2 h3 h4, of "[TimerFired, CtxDone]"]
    by (simp add: w0_def)
qed

text \<open>
  C1, as the code has it. A tick on which \<open>renewToken\<close> returns an error does not end the
  goroutine: it logs the failure and goes on to serve the remaining wake-ups, and when the
  timer fires next, the next event after that log line is another lookup call.
\<close>

theorem failed_renewal_continues_loop:
  assumes "getToken c w = ((token, None), w1)"
    and "getTokenTTL c token w1 = (Returns (ttl, None), w2)"
    and "shouldRenewToken c ttl w2 = (True, w3)"
    and "renewToken c token (emit (Warnf ''token is really close to expire, current ttl: %d'') w3)
           = (Some err, w4)"
  shows "startTokenRenewer c (TimerFired # ws) w =
           startTokenRenewer c ws (emit (Errorf ''could not renew token: %v'') w4)
         \<and> prefix (trace w4 @ [Errorf ''could not renew token: %v'', LookupSelfCall])
             (trace (snd (startTokenRenewer c (TimerFired # TimerFired # ws) w)))"
proof -
  let ?w5 = "emit (Errorf ''could not renew token: %v'') w4"
  have step: "startTokenRenewer c (TimerFired # ws') w = startTokenRenewer c ws' ?w5" for ws'
    using assms by simp
  have "prefix (trace ?w5 @ [LookupSelfCall]) (trace (snd (startTokenRenewer c (TimerFired # ws) ?w5)))"
    by (rule startTokenRenewer_tick_trace)
  then show ?thesis
    using step [of ws] step [of "TimerFired # ws"] by (simp add: emit_def)
qed

theorem failed_renewal_continues_loop_witness:
  "getToken failingClient w0 = ((Some lowToken, None), \<lparr>store = 1, trace = [LookupSelfCall]\<rparr>)
   \<and> getTokenTTL failingClient (Some lowToken) \<lparr>store = 1, trace = [LookupSelfCall]\<rparr> =
       (Returns (5, None), \<lparr>store = 1, trace = [LookupSelfCall, TokenTTLMetric 5]\<rparr>)
   \<and> shouldRenewToken failingClient 5 \<lparr>store = 1, trace = [LookupSelfCall, TokenTTLMetric 5]\<rparr> =
       (True,
        \<lparr>store = 1,
         trace = [LookupSelfCall, TokenTTLMetric 5, TokenExpiredMetric vaultTokenExpired]\<rparr>)
   \<and> renewToken failingClient (Some lowToken)
         (emit (Warnf ''token is really close to expire, current ttl: %d'')
            \<lparr>store = 1,
             trace = [LookupSelfCall, TokenTTLMetric 5, TokenExpiredMetric vaultTokenExpired]\<rparr>) =
       (Some (ApiError ''permission denied''),
        \<lparr>store = 2,
         trace = [LookupSelfCall, TokenTTLMetric 5, TokenExpiredMetric vaultTokenExpired,
                  Warnf ''token is really close to expire, current ttl: %d'',
                  RenewSelfCall 3600,
                  Errorf ''failed to renew token: %v'',
                  TokenRenewErrorsCountMetric UnknownErrorType]\<rparr>)
   \<and> startTokenRenewer failingClient [TimerFired, CtxDone] w0 =
       (Returned,
        \<lparr>store = 2,
         trace = [LookupSelfCall, TokenTTLMetric 5, TokenExpiredMetric vaultTokenExpired,
                  Warnf ''token is really close to expire, current ttl: %d'',
                  RenewSelfCall 3600,
                  Errorf ''failed to renew token: %v'',
                  TokenRenewErrorsCountMetric UnknownErrorType,
                  Errorf ''could not renew token: %v'',
                  Infoln ''gracefully shutting down token renewal go routine'']\<rparr>)"
proof -
  let ?w1 = "\<lparr>store = 1 :: nat, trace = [LookupSelfCall]\<rparr>"
  let ?w2 = "\<lparr>store = 1 :: nat, trace = [LookupSelfCall, TokenTTLMetric 5]\<rparr>"
  let ?w3 = "\<lparr>store = 1 :: nat,
              trace = [LookupSelfCall, TokenTTLMetric 5, TokenExpiredMetric vaultTokenExpired]\<rparr>"
  let ?w4 = "\<lparr>store = 2 :: nat,
              trace = [LookupSelfCall, TokenTTLMetric 5, TokenExpiredMetric vaultTokenExpired,
                       Warnf ''token is really close to expire, current ttl: %d'',
                       RenewSelfCall 3600,
                       Errorf ''failed to renew token: %v'',
                       TokenRenewErrorsCountMetric UnknownErrorType]\<rparr>"
  have h1: "getToken failingClient w0 = ((Some lowToken, None), ?w1)"
    by (simp add: example_defs getToken_def call_def)
  have h2: "getTokenTTL failingClient (Some lowToken) ?w1 = (Returns (5, None), ?w2)"
    by (simp add: example_defs getTokenTTL_def ParseInt_def digit_def emit_def)
  have h3: "shouldRenewToken failingClient 5 ?w2 = (True, ?w3)"
    by (simp add: example_defs shouldRenewToken_def word_sless_alt emit_def)
  have h4: "renewToken failingClient (Some lowToken)
              (emit (Warnf ''token is really close to expire, current ttl: %d'') ?w3) =
            (Some (ApiError ''permission denied''), ?w4)"
    by (simp add: example_defs renewToken_def call_def emit_def)
  have "startTokenRenewer failingClient [TimerFired, CtxDone] w0 =
          startTokenRenewer failingClient [CtxDone] (emit (Errorf ''could not renew token: %v'') ?w4)"
    using failed_renewal_continues_loop [OF h1 h2 h3 h4, of "[CtxDone]"] by (rule conjunct1)
  then show ?thesis
    using h1 h2 h3 h4 by (simp add: emit_def)
qed

text \<open>
  The store refuses every renewal; the timer fires twice. After the first failed renewal
  the goroutine looks the token up and calls \<open>RenewSelf\<close> again, and it is still waiting
  afterwards.
\<close>

theorem failed_renewal_stops_loop_counterexample:
  "startTokenRenewer failingClient [TimerFired, TimerFired] w0 =
     (Blocked,
      \<lparr>store = 4,
       trace = [LookupSelfCall, TokenTTLMetric 5, TokenExpiredMetric vaultTokenExpired,
                Warnf ''token is really close to expire, current ttl: %d'',
                RenewSelfCall 3600,
                Errorf ''failed to renew token: %v'',
                TokenRenewErrorsCountMetric UnknownErrorType,
                Errorf ''could not renew token: %v'',
                LookupSelfCall, TokenTTLMetric 5, TokenExpiredMetric vaultTokenExpired,
                Warnf ''token is really close to expire, current ttl: %d'',
                RenewSelfCall 3600,
                Errorf ''failed to renew token: %v'',
                TokenRenewErrorsCountMetric UnknownErrorType,
                Errorf ''could not renew token: %v'']\<rparr>)"
  by (simp add: example_defs token_defs word_sless_alt)

subsection \<open>Decoding the TTL\<close>

text \<open>
  When the \<open>ttl\<close> field of the token is a \<open>json.Number\<close>, \<open>getTokenTTL\<close> returns: the
  parsed TTL, or \<open>-1\<close> with the error of the parser.
\<close>

lemma getTokenTTL_number:
  assumes "index (Data t) ''ttl'' = JNumber n"
  shows "fst (getTokenTTL c (Some t) w) =
           (case ParseInt n of
              (ttl, None) \<Rightarrow> Returns (ttl, None)
            | (ttl, Some err) \<Rightarrow> Returns (- 1, Some err))"
  using assms by (simp add: getTokenTTL_def split: prod.splits option.splits)

text \<open>A TTL that does not parse ends the goroutine before any renewal.\<close>

lemma ttl_decode_error_stops_loop:
  assumes "LookupSelf (vclient c) (store w) = ((Some t, None), s1)"
    and "index (Data t) ''ttl'' = JNumber n"
    and "ParseInt n = (v, Some err)"
  shows "startTokenRenewer c (TimerFired # ws) w =
           (Returned,
            w\<lparr>store := s1,
              trace := trace w @
                [LookupSelfCall,
                 Errorf ''couldn't decode ttl from token: %v'',
                 Errorf ''failed to read token TTL: %v'']\<rparr>)"
  using assms by (simp add: getToken_def getTokenTTL_def call_def emit_def)

text \<open>
  C3. \<open>getTokenTTL\<close> is not total. On a token whose data has no \<open>ttl\<close> field, or has a
  JSON string there, the type assertion to \<open>json.Number\<close> panics, and the panic takes the
  goroutine of \<open>startTokenRenewer\<close> down with it instead of ending it with an error.
\<close>

theorem getTokenTTL_panics_without_number:
  "getTokenTTL c (Some noTTLToken) w = (Panics InterfaceConversion, w)
   \<and> getTokenTTL c (Some (kvSecret [''ttl'' \<mapsto> JString ''3600''])) w = (Panics InterfaceConversion, w)
   \<and> startTokenRenewer noTTLClient [TimerFired] w0 =
       (Crashed InterfaceConversion, \<lparr>store = 1, trace = [LookupSelfCall]\<rparr>)"
  by (simp add: example_defs getToken_def getTokenTTL_def call_def)

section \<open>Reading a secret\<close>

text \<open>
  C7. An empty key reads the default key \<open>data\<close>: the two calls return the same pair and
  have the same effects, for every client, path and state of the world.
\<close>

theorem ReadSecret_empty_key_is_default:
  "ReadSecret c path '''' w = ReadSecret c path defaultSecretKey w"
  by (simp add: ReadSecret_def Let_def defaultSecretKey_def)

text \<open>
  C8. When the read succeeds with a response from which the engine extracts a payload that
  holds a string at the requested key (the default key for an empty one), \<open>ReadSecret\<close>
  returns that string and a nil error, and the read is its only event.
\<close>

theorem ReadSecret_returns_string:
  assumes "logical c path (store w) = ((Some s, None), s1)"
    and "engine c s = Some m"
    and "m (if key = '''' then defaultSecretKey else key) = Some (JString v)"
  shows "ReadSecret c path key w =
           (Returns (v, None), w\<lparr>store := s1, trace := trace w @ [ReadCall path]\<rparr>)"
  using assms by (simp add: ReadSecret_def Let_def call_def)

theorem ReadSecret_returns_string_witness:
  "logical (passwordClient (JString ''abc'')) ''secret/app'' (store w0) =
     ((Some (kvSecret [''password'' \<mapsto> JString ''abc'']), None), 1)
   \<and> engine (passwordClient (JString ''abc'')) (kvSecret [''password'' \<mapsto> JString ''abc'']) =
       Some [''password'' \<mapsto> JString ''abc'']
   \<and> [''password'' \<mapsto> JString ''abc''] (if ''password'' = '''' then defaultSecretKey else ''password'') =
       Some (JString ''abc'')
   \<and> ReadSecret (passwordClient (JString ''abc'')) ''secret/app'' ''password'' w0 =
       (Returns (''abc'', None), \<lparr>store = 1, trace = [ReadCall ''secret/app'']\<rparr>)"
proof -
  let ?c = "passwordClient (JString ''abc'')"
  let ?m = "[''password'' \<mapsto> JString ''abc'']"
  have h1: "logical ?c ''secret/app'' (store w0) = ((Some (kvSecret ?m), None), 1)"
    by (simp add: example_defs)
  have h2: "engine ?c (kvSecret ?m) = Some ?m"
    by (simp add: example_defs)
  have h3: "?m (if ''password'' = '''' then defaultSecretKey else ''password'') = Some (JString ''abc'')"
    by simp
  show ?thesis
    using h1 h2 h3 ReadSecret_returns_string [OF h1 h2 h3] by (simp add: w0_def)
qed

text \<open>
  C4, as the code has it. \<open>ReadSecret\<close> returns the empty string with the
  \<open>BackendSecretNotFoundError\<close> for the path and the key exactly when the read succeeds and
  the response is nil, or the engine extracts no payload from it, or the payload has no
  value other than nil at the key: the key is absent, or it is present with a nil value.
  The error is the same value in every one of these cases, and \<open>ReadSecret\<close> returns no
  other error of that kind.
\<close>

theorem ReadSecret_not_found_iff:
  assumes "logical c path (store w) = ((secret, err), s1)"
    and "k = (if key = '''' then defaultSecretKey else key)"
  shows "(fst (ReadSecret c path key w) =
            Returns ('''', Some (BackendSecretNotFoundError BackendSecretNotFoundErrorType path k))
          \<longleftrightarrow> err = None \<and>
              (secret = None \<or>
               (\<exists>s. secret = Some s \<and>
                  (engine c s = None \<or>
                   (\<exists>m. engine c s = Some m \<and> (m k = None \<or> m k = Some JNil)))))) \<and>
         (\<forall>d t p k'. fst (ReadSecret c path key w) = Returns (d, Some (BackendSecretNotFoundError t p k'))
            \<longrightarrow> d = '''' \<and> t = BackendSecretNotFoundErrorType \<and> p = path \<and> k' = k)"
  using assms
  by (auto simp: ReadSecret_def Let_def call_def split: option.splits jvalue.splits)

theorem ReadSecret_not_found_iff_witness:
  "logical (exampleClient downVault (None, None)) ''secret/app'' (store w0) = ((None, None), 1)
   \<and> ''missing'' = (if ''missing'' = '''' then defaultSecretKey else ''missing'')
   \<and> fst (ReadSecret (exampleClient downVault (None, None)) ''secret/app'' ''missing'' w0) =
       Returns ('''', Some (BackendSecretNotFoundError BackendSecretNotFoundErrorType ''secret/app'' ''missing''))"
proof -
  let ?c = "exampleClient downVault (None, None)"
  have h1: "logical ?c ''secret/app'' (store w0) = ((None, None), 1)"
    by (simp add: example_defs)
  have h2: "''missing'' = (if ''missing'' = '''' then defaultSecretKey else ''missing'')"
    by simp
  show ?thesis
    using h1 h2 ReadSecret_not_found_iff [OF h1 h2] by simp
qed

text \<open>
  The payload \<open>{"password": null}\<close> holds the key \<open>password\<close>, and reading that key is
  answered with the not-found error all the same.
\<close>

theorem ReadSecret_not_found_counterexample:
  "logical (passwordClient JNil) ''secret/app'' (store w0) =
     ((Some (kvSecret [''password'' \<mapsto> JNil]), None), 1)
   \<and> engine (passwordClient JNil) (kvSecret [''password'' \<mapsto> JNil]) = Some [''password'' \<mapsto> JNil]
   \<and> ''password'' \<in> dom [''password'' \<mapsto> JNil]
   \<and> fst (ReadSecret (passwordClient JNil) ''secret/app'' ''password'' w0) =
       Returns ('''', Some (BackendSecretNotFoundError BackendSecretNotFoundErrorType ''secret/app'' ''password''))"
  by (simp add: example_defs ReadSecret_def Let_def call_def emit_def)

text \<open>
  C10. \<open>ReadSecret\<close> is not total on a payload that holds the key: the payload
  \<open>{"password": 42}\<close> has a \<open>json.Number\<close> there, the type assertion to \<open>string\<close>
  panics, and no value is returned.
\<close>

theorem ReadSecret_panics_on_non_string:
  "logical (passwordClient (JNumber ''42'')) ''secret/app'' (store w0) =
     ((Some (kvSecret [''password'' \<mapsto> JNumber ''42'']), None), 1)
   \<and> engine (passwordClient (JNumber ''42'')) (kvSecret [''password'' \<mapsto> JNumber ''42'']) =
       Some [''password'' \<mapsto> JNumber ''42'']
   \<and> ReadSecret (passwordClient (JNumber ''42'')) ''secret/app'' ''password'' w0 =
       (Panics InterfaceConversion, \<lparr>store = 1, trace = [ReadCall ''secret/app'']\<rparr>)"
  by (simp add: example_defs ReadSecret_def Let_def call_def emit_def)

end
